theory Spec2Isabelle
  imports Complex_Main
begin

section \<open>Knowledge base over a remote embedding service and a remote vector database\<close>

text \<open>
  A shallow embedding of the TypeScript classes \<open>QwenVectorizer\<close> (vectorizer.ts),
  \<open>ZillizManager\<close> (zilliz.ts) and \<open>KnowledgeManager\<close> (knowledgeManager.ts).

  The two remote services are the environment of the program. Each is a step function
  on an abstract service state \<open>'s\<close>: it receives the request the code sends and answers
  with a reply. Every remote call the code makes is appended to a log, so that "how many
  calls, and which" is a property of the final world. JavaScript numbers are \<open>real\<close>
  (JSON carries no NaN; a NaN threshold, against which every comparison is false, is not
  represented), exceptions are values of type \<open>error\<close>, and an \<open>async\<close> method is a
  function from the world to a result and the world after it. The values that JSON
  delivers are typed as the interfaces of the source declare them, each field optional.
  Console output is not modelled.
\<close>

subsection \<open>Errors\<close>

text \<open>One constructor per \<open>throw\<close> site (the messages of the source are in Chinese).\<close>

datatype cause =
    ResponseFormat     \<comment> \<open>the response has no \<open>data\<close>\<close>
  | MissingEmbedding   \<comment> \<open>an item of the response has no \<open>embedding\<close>\<close>

datatype error =
    ApiRequestFailed        \<comment> \<open>callEmbeddingApi: axios error of the embedding call\<close>
  | VectorizeFailed cause   \<comment> \<open>callEmbeddingApi: any other error, wrapped\<close>
  | EmptyResult             \<comment> \<open>vectorizeText: the API returned an empty result\<close>
  | HttpError               \<comment> \<open>request: axios error, rethrown as \<open>HTTP status: message\<close>\<close>
  | ZillizApiError          \<comment> \<open>request: envelope code neither 0 nor 200\<close>
  | TypeError               \<comment> \<open>JavaScript runtime: method of a value that has none\<close>
  | LengthMismatch          \<comment> \<open>batchVectorizeAndStore: array lengths differ\<close>
  | StoreFailed             \<comment> \<open>vectorizeAndStore: insertData returned false\<close>
  | BatchStoreFailed        \<comment> \<open>batchVectorizeAndStore: insertData returned false\<close>

subsection \<open>Data of the embedding service\<close>

text \<open>An item of \<open>QwenEmbeddingResponse.data\<close>; a missing \<open>embedding\<close> is \<open>None\<close>.\<close>

record embed_item =
  embedding :: "real list option"
  index :: nat

text \<open>What \<open>axios.post\<close> gives: it throws, or it returns a body whose \<open>data\<close> may be missing.\<close>

datatype embed_reply =
    EmbedAxiosError
  | EmbedResponse "embed_item list option"

subsection \<open>Data of the vector database\<close>

record field_schema =
  fieldName :: string
  dataType :: string
  isPrimary :: "bool option"
  elementDataType :: "string option"
  maxLength :: "nat option"
  dimension :: "nat option"

record index_param =
  ip_fieldName :: string
  indexName :: string
  metricType :: string

text \<open>
  \<open>KnowledgeItem\<close>. The vector is optional because \<open>batchVectorizeAndStore\<close> fills it
  with \<open>vectors[index]\<close>, which is \<open>undefined\<close> in JavaScript when the index is out of range.
\<close>

record knowledge_item =
  vector :: "real list option"
  ki_text :: string        \<comment> \<open>the field \<open>text\<close>\<close>
  topic :: string
  weight :: real
  title :: string
  tags :: "string list"
  created_at :: int

datatype js_id = IdNum int | IdStr string

text \<open>A row of the search response as JSON delivers it: every field may be absent.\<close>

record db_row =
  row_id :: "js_id option"
  row_distance :: "real option"
  row_score :: "real option"
  row_text :: "string option"
  row_topic :: "string option"
  row_weight :: "real option"
  row_created_at :: "int option"
  row_title :: "string option"
  row_tags :: "string list option"

text \<open>\<open>SearchResult\<close>, the rows as \<open>ZillizManager.search\<close> returns them.\<close>

record search_result =
  sr_id :: "js_id option"
  sr_distance :: "real option"
  sr_text :: "string option"
  sr_topic :: "string option"
  sr_weight :: "real option"
  sr_created_at :: "int option"
  sr_title :: "string option"
  sr_tags :: "string list option"

text \<open>The body of each POST request of \<open>ZillizManager\<close>, one constructor per REST path.\<close>

datatype db_request =
    ListReq                                           \<comment> \<open>/v2/vectordb/collections/list\<close>
  | CreateReq string "field_schema list" "index_param list"
                                                      \<comment> \<open>/v2/vectordb/collections/create\<close>
  | InsertReq string "knowledge_item list"            \<comment> \<open>/v2/vectordb/entities/insert\<close>
  | LoadReq string                                    \<comment> \<open>/v2/vectordb/collections/load\<close>
  | SearchReq string "real list list" string nat "string list"
                                                      \<comment> \<open>/v2/vectordb/entities/search\<close>

text \<open>
  The \<open>data\<close> of a response envelope when it is truthy: an array of strings, an array of
  rows, or some other object, such as the \<open>{insertCount, insertIds}\<close> of an insert, of which
  the identifiers that the database assigned are kept. A missing or falsy \<open>data\<close> is \<open>None\<close>
  in the reply.
\<close>

datatype resp_data = DNames "string list" | DRows "db_row list" | DObject "js_id list"

datatype db_reply =
    ReplyAxiosError
  | Reply int "resp_data option"   \<comment> \<open>the envelope: \<open>code\<close> and \<open>data\<close>\<close>

text \<open>What \<open>request\<close> returns, \<open>result.data || result\<close>: the data, or the whole envelope.\<close>

datatype req_result = Data resp_data | WholeEnvelope

subsection \<open>The world and the environment\<close>

datatype call = EmbedPost "string list" | ZillizPost db_request

record 's world =
  srv_state :: 's          \<comment> \<open>the state of the remote services\<close>
  calls :: "call list"     \<comment> \<open>the remote calls made so far, oldest first\<close>
  uuid_pos :: nat          \<comment> \<open>how many identifiers \<open>uuidv4\<close> has handed out\<close>
  clock_pos :: nat         \<comment> \<open>how many times \<open>Date.now\<close> has been read\<close>

record 's env =
  qwen_srv :: "'s \<Rightarrow> string list \<Rightarrow> embed_reply \<times> 's"
  zilliz_srv :: "'s \<Rightarrow> db_request \<Rightarrow> db_reply \<times> 's"
  uuid_src :: "nat \<Rightarrow> string"     \<comment> \<open>the stream of random identifiers\<close>
  clock_src :: "nat \<Rightarrow> int"       \<comment> \<open>the successive readings of \<open>Date.now()\<close>, in ms\<close>

type_synonym ('s, 'a) io = "'s world \<Rightarrow> (error + 'a) \<times> 's world"

definition ret :: "'a \<Rightarrow> ('s, 'a) io" where
  "ret a = (\<lambda>w. (Inr a, w))"

definition throw :: "error \<Rightarrow> ('s, 'a) io" where
  "throw e = (\<lambda>w. (Inl e, w))"

definition bind :: "('s, 'a) io \<Rightarrow> ('a \<Rightarrow> ('s, 'b) io) \<Rightarrow> ('s, 'b) io" where
  "bind m f = (\<lambda>w. case m w of (Inl e, w') \<Rightarrow> (Inl e, w') | (Inr a, w') \<Rightarrow> f a w')"

definition try_catch :: "('s, 'a) io \<Rightarrow> (error \<Rightarrow> ('s, 'a) io) \<Rightarrow> ('s, 'a) io" where
  "try_catch m h = (\<lambda>w. case m w of (Inl e, w') \<Rightarrow> h e w' | (Inr a, w') \<Rightarrow> (Inr a, w'))"

subsection \<open>QwenVectorizer\<close>

text \<open>The \<open>axios.post\<close> to \<open>/embeddings\<close>: one remote call, logged, with the whole list as input.\<close>

definition axios_post_embeddings :: "'s env \<Rightarrow> string list \<Rightarrow> 's world \<Rightarrow> embed_reply \<times> 's world" where
  "axios_post_embeddings env texts w =
     (case qwen_srv env (srv_state w) texts of
        (rep, s') \<Rightarrow> (rep, w\<lparr>srv_state := s', calls := calls w @ [EmbedPost texts]\<rparr>))"

text \<open>The loop \<open>for (const item of result.data)\<close>: push the embedding, or throw at the first item without one.\<close>

fun extract_vectors :: "embed_item list \<Rightarrow> real list list \<Rightarrow> error + real list list" where
  "extract_vectors [] vectors = Inr vectors"
| "extract_vectors (item # items) vectors =
     (case embedding item of
        Some e \<Rightarrow> extract_vectors items (vectors @ [e])
      | None \<Rightarrow> Inl (VectorizeFailed MissingEmbedding))"

definition callEmbeddingApi :: "'s env \<Rightarrow> string list \<Rightarrow> ('s, real list list) io" where
  "callEmbeddingApi env texts w =
     (case axios_post_embeddings env texts w of
        (EmbedAxiosError, w') \<Rightarrow> (Inl ApiRequestFailed, w')
      | (EmbedResponse None, w') \<Rightarrow> (Inl (VectorizeFailed ResponseFormat), w')
      | (EmbedResponse (Some items), w') \<Rightarrow> (extract_vectors items [], w'))"

definition vectorizeText :: "'s env \<Rightarrow> string \<Rightarrow> ('s, real list) io" where
  "vectorizeText env txt =
     try_catch
       (bind (callEmbeddingApi env [txt])
          (\<lambda>response. case response of v # _ \<Rightarrow> ret v | [] \<Rightarrow> throw EmptyResult))
       (\<lambda>e. throw e)"

definition vectorizeTexts :: "'s env \<Rightarrow> string list \<Rightarrow> ('s, real list list) io" where
  "vectorizeTexts env texts = try_catch (callEmbeddingApi env texts) (\<lambda>e. throw e)"

text \<open>The probe text of \<open>getVectorDimension\<close>, two CJK characters, as its UTF-8 bytes.\<close>

definition probe_text :: string where
  "probe_text = [CHR 0xE6, CHR 0xB5, CHR 0x8B, CHR 0xE8, CHR 0xAF, CHR 0x95]"

definition getVectorDimension :: "'s env \<Rightarrow> ('s, nat) io" where
  "getVectorDimension env =
     try_catch
       (bind (vectorizeText env probe_text) (\<lambda>testVector. ret (length testVector)))
       (\<lambda>e. ret 1024)"

subsection \<open>JavaScript's \<open>||\<close> on optional values\<close>

text \<open>
  \<open>a || b\<close> is \<open>b\<close> when \<open>a\<close> is falsy. A missing field (\<open>undefined\<close>) is falsy; so are the
  number 0 and the empty string; an array, even empty, is truthy.
\<close>

definition or_number :: "'a::zero option \<Rightarrow> 'a \<Rightarrow> 'a" where
  "or_number v d = (case v of Some x \<Rightarrow> if x = 0 then d else x | None \<Rightarrow> d)"

definition or_string :: "string option \<Rightarrow> string \<Rightarrow> string" where
  "or_string v d = (case v of Some x \<Rightarrow> if x = [] then d else x | None \<Rightarrow> d)"

definition or_array :: "'a list option \<Rightarrow> 'a list \<Rightarrow> 'a list" where
  "or_array v d = (case v of Some x \<Rightarrow> x | None \<Rightarrow> d)"

definition or_id :: "js_id option \<Rightarrow> js_id \<Rightarrow> js_id" where
  "or_id v d =
     (case v of
        Some (IdNum n) \<Rightarrow> if n = 0 then d else IdNum n
      | Some (IdStr x) \<Rightarrow> if x = [] then d else IdStr x
      | None \<Rightarrow> d)"

text \<open>\<open>xs[i]\<close> in JavaScript: \<open>undefined\<close> out of range, no exception.\<close>

definition nth_opt :: "'a list \<Rightarrow> nat \<Rightarrow> 'a option" where
  "nth_opt xs i = (if i < length xs then Some (xs ! i) else None)"

definition lift :: "error + 'a \<Rightarrow> ('s, 'a) io" where
  "lift r = (\<lambda>w. (r, w))"

subsection \<open>ZillizManager\<close>

text \<open>
  \<open>request\<close>: one POST, logged. An axios error is rethrown; an envelope whose code is
  neither 0 nor 200 throws; otherwise the result is \<open>result.data || result\<close>.
\<close>

definition request :: "'s env \<Rightarrow> db_request \<Rightarrow> ('s, req_result) io" where
  "request env req w =
     (case zilliz_srv env (srv_state w) req of
        (rep, s') \<Rightarrow>
          (let w' = w\<lparr>srv_state := s', calls := calls w @ [ZillizPost req]\<rparr> in
           case rep of
             ReplyAxiosError \<Rightarrow> (Inl HttpError, w')
           | Reply code d \<Rightarrow>
               if code \<noteq> 0 \<and> code \<noteq> 200 then (Inl ZillizApiError, w')
               else (Inr (case d of Some x \<Rightarrow> Data x | None \<Rightarrow> WholeEnvelope), w')))"

text \<open>\<open>listCollections\<close>: \<open>collections || []\<close> is \<open>collections\<close> (an object is truthy); a failure gives \<open>[]\<close>.\<close>

definition listCollections :: "'s env \<Rightarrow> ('s, req_result) io" where
  "listCollections env =
     try_catch (bind (request env ListReq) (\<lambda>collections. ret collections))
       (\<lambda>e. ret (Data (DNames [])))"

text \<open>
  \<open>collections.includes(name)\<close>: membership in an array (a row object is never equal to a
  string); a TypeError on a value that is not an array.
\<close>

fun array_includes :: "req_result \<Rightarrow> string \<Rightarrow> error + bool" where
  "array_includes (Data (DNames ns)) n = Inr (n \<in> set ns)"
| "array_includes (Data (DRows rs)) n = Inr False"
| "array_includes (Data (DObject ids)) n = Inl TypeError"
| "array_includes WholeEnvelope n = Inl TypeError"

text \<open>The fixed schema of \<open>createCollection\<close>, its local constant \<open>fields\<close>.\<close>

definition schema_fields :: "nat \<Rightarrow> field_schema list" where
  "schema_fields vectorDim =
     [\<lparr>fieldName = ''id'', dataType = ''Int64'', isPrimary = Some True,
        elementDataType = None, maxLength = None, dimension = None\<rparr>,
      \<lparr>fieldName = ''vector'', dataType = ''FloatVector'', isPrimary = None,
        elementDataType = None, maxLength = None, dimension = Some vectorDim\<rparr>,
      \<lparr>fieldName = ''text'', dataType = ''VarChar'', isPrimary = None,
        elementDataType = None, maxLength = Some 65535, dimension = None\<rparr>,
      \<lparr>fieldName = ''topic'', dataType = ''VarChar'', isPrimary = None,
        elementDataType = None, maxLength = Some 500, dimension = None\<rparr>,
      \<lparr>fieldName = ''weight'', dataType = ''Float'', isPrimary = None,
        elementDataType = None, maxLength = None, dimension = None\<rparr>,
      \<lparr>fieldName = ''created_at'', dataType = ''Int32'', isPrimary = None,
        elementDataType = None, maxLength = None, dimension = None\<rparr>,
      \<lparr>fieldName = ''title'', dataType = ''VarChar'', isPrimary = None,
        elementDataType = None, maxLength = Some 100, dimension = None\<rparr>,
      \<lparr>fieldName = ''tags'', dataType = ''Array'', isPrimary = None,
        elementDataType = Some ''VarChar'', maxLength = Some 100, dimension = None\<rparr>]"

definition indexParams :: "index_param list" where
  "indexParams = [\<lparr>ip_fieldName = ''vector'', indexName = ''vector_index'', metricType = ''COSINE''\<rparr>]"

text \<open>The default of the parameter \<open>description\<close> (seven CJK characters, as UTF-8 bytes).\<close>

definition default_description :: string where
  "default_description =
     [CHR 0xE7, CHR 0x9F, CHR 0xA5, CHR 0xE8, CHR 0xAF, CHR 0x86, CHR 0xE5, CHR 0xBA, CHR 0x93,
      CHR 0xE5, CHR 0x90, CHR 0x91, CHR 0xE9, CHR 0x87, CHR 0x8F, CHR 0xE9, CHR 0x9B, CHR 0x86,
      CHR 0xE5, CHR 0x90, CHR 0x88]"

text \<open>\<open>createCollection\<close>; the description is a parameter that the request body does not carry.\<close>

definition createCollection :: "'s env \<Rightarrow> string \<Rightarrow> nat \<Rightarrow> string \<Rightarrow> ('s, bool) io" where
  "createCollection env collectionName vectorDim description =
     try_catch
       (bind (listCollections env) (\<lambda>collections.
        bind (lift (array_includes collections collectionName)) (\<lambda>present.
          if present then ret True
          else bind (request env (CreateReq collectionName (schema_fields vectorDim) indexParams))
                 (\<lambda>_. ret True))))
       (\<lambda>e. ret False)"

definition loadCollection :: "'s env \<Rightarrow> string \<Rightarrow> ('s, bool) io" where
  "loadCollection env collectionName =
     try_catch
       (bind (listCollections env) (\<lambda>collections.
        bind (lift (array_includes collections collectionName)) (\<lambda>present.
          if \<not> present then ret False
          else bind (request env (LoadReq collectionName)) (\<lambda>_. ret True))))
       (\<lambda>e. ret False)"

text \<open>\<open>insertData\<close>: the result of \<open>loadCollection\<close> is awaited and dropped.\<close>

definition insertData :: "'s env \<Rightarrow> string \<Rightarrow> knowledge_item list \<Rightarrow> nat \<Rightarrow> ('s, bool) io" where
  "insertData env collectionName data vectorDim =
     try_catch
       (bind (listCollections env) (\<lambda>collections.
        bind (lift (array_includes collections collectionName)) (\<lambda>present.
        bind (if \<not> present
              then createCollection env collectionName vectorDim default_description
              else ret True) (\<lambda>created.
          if \<not> created then ret False
          else bind (request env (InsertReq collectionName data)) (\<lambda>_.
               bind (loadCollection env collectionName) (\<lambda>_. ret True))))))
       (\<lambda>e. ret False)"

definition default_output_fields :: "string list" where
  "default_output_fields = [''text'', ''topic'', ''weight'', ''created_at'', ''title'', ''tags'']"

text \<open>One row of \<open>searchResults.map\<close>: the fields are copied, the distance is \<open>distance || score || 0\<close>.\<close>

definition format_row :: "db_row \<Rightarrow> search_result" where
  "format_row r =
     \<lparr>sr_id = row_id r,
      sr_distance = Some (or_number (row_distance r) (or_number (row_score r) 0)),
      sr_text = row_text r, sr_topic = row_topic r, sr_weight = row_weight r,
      sr_created_at = row_created_at r, sr_title = row_title r, sr_tags = row_tags r\<rparr>"

text \<open>A string in the place of a row has none of the properties read.\<close>

definition blank_row :: search_result where
  "blank_row =
     \<lparr>sr_id = None, sr_distance = Some 0, sr_text = None, sr_topic = None, sr_weight = None,
      sr_created_at = None, sr_title = None, sr_tags = None\<rparr>"

text \<open>\<open>(results || []).map(...)\<close>: a TypeError when the value returned by \<open>request\<close> is not an array.\<close>

fun format_results :: "req_result \<Rightarrow> error + search_result list" where
  "format_results (Data (DRows rs)) = Inr (map format_row rs)"
| "format_results (Data (DNames ns)) = Inr (map (\<lambda>_. blank_row) ns)"
| "format_results (Data (DObject ids)) = Inl TypeError"
| "format_results WholeEnvelope = Inl TypeError"

definition search ::
  "'s env \<Rightarrow> string \<Rightarrow> real list \<Rightarrow> nat \<Rightarrow> string list option \<Rightarrow> ('s, search_result list) io" where
  "search env collectionName queryVector limit outputFields =
     try_catch
       (bind (loadCollection env collectionName) (\<lambda>loaded.
          if \<not> loaded then ret []
          else bind (request env
                       (SearchReq collectionName [queryVector] ''vector'' limit
                          (case outputFields of None \<Rightarrow> default_output_fields | Some fs \<Rightarrow> fs)))
                 (\<lambda>results. lift (format_results results))))
       (\<lambda>e. ret [])"

subsection \<open>KnowledgeManager\<close>

record knowledge_manager =
  km_collectionName :: string
  km_vectorDim :: nat

text \<open>The metadata object \<open>{topic, weight, title, tags}\<close>, of the caller and of a result.\<close>

record metadata =
  md_topic :: string
  md_weight :: real
  md_title :: string
  md_tags :: "string list"

text \<open>\<open>KnowledgeSearchResult\<close>.\<close>

record knowledge_search_result =
  ks_id :: js_id
  ks_text :: string
  ks_metadata :: metadata
  ks_created_at :: int
  similarity_score :: real

text \<open>\<open>Math.floor(Date.now() / 1000)\<close>: the next reading of the clock, in seconds.\<close>

definition unix_now :: "'s env \<Rightarrow> ('s, int) io" where
  "unix_now env w = (Inr (clock_src env (clock_pos w) div 1000), w\<lparr>clock_pos := Suc (clock_pos w)\<rparr>)"

text \<open>\<open>uuidv4()\<close>: the next identifier of the random stream.\<close>

definition uuidv4 :: "'s env \<Rightarrow> ('s, string) io" where
  "uuidv4 env w = (Inr (uuid_src env (uuid_pos w)), w\<lparr>uuid_pos := Suc (uuid_pos w)\<rparr>)"

definition vectorizeAndStore ::
  "'s env \<Rightarrow> knowledge_manager \<Rightarrow> string \<Rightarrow> metadata \<Rightarrow> ('s, string) io" where
  "vectorizeAndStore env km txt md =
     try_catch
       (bind (vectorizeText env txt) (\<lambda>vec.
        bind (unix_now env) (\<lambda>now.
        bind (insertData env (km_collectionName km)
                [\<lparr>vector = Some vec, ki_text = txt, topic = md_topic md, weight = md_weight md,
                  title = md_title md, tags = md_tags md, created_at = now\<rparr>]
                (km_vectorDim km)) (\<lambda>success.
          if success then bind (uuidv4 env) (\<lambda>docId. ret docId)
          else throw StoreFailed))))
       (\<lambda>e. throw e)"

text \<open>The result object that \<open>searchSimilar\<close> pushes for a row it keeps.\<close>

definition to_result :: "search_result \<Rightarrow> knowledge_search_result" where
  "to_result r =
     \<lparr>ks_id = or_id (sr_id r) (IdStr ''auto_generated''),
      ks_text = or_string (sr_text r) [],
      ks_metadata =
        \<lparr>md_topic = or_string (sr_topic r) [], md_weight = or_number (sr_weight r) 1,
         md_title = or_string (sr_title r) [], md_tags = or_array (sr_tags r) []\<rparr>,
      ks_created_at = or_number (sr_created_at r) 0,
      similarity_score = or_number (sr_distance r) 0\<rparr>"

text \<open>The loop \<open>for (const result of results)\<close> with its \<open>filteredResults.push\<close>.\<close>

fun filter_loop ::
  "search_result list \<Rightarrow> real \<Rightarrow> knowledge_search_result list \<Rightarrow> knowledge_search_result list" where
  "filter_loop [] scoreThreshold filteredResults = filteredResults"
| "filter_loop (r # results) scoreThreshold filteredResults =
     (if or_number (sr_distance r) 0 \<ge> scoreThreshold
      then filter_loop results scoreThreshold (filteredResults @ [to_result r])
      else filter_loop results scoreThreshold filteredResults)"

definition searchSimilar ::
  "'s env \<Rightarrow> knowledge_manager \<Rightarrow> string \<Rightarrow> nat \<Rightarrow> real \<Rightarrow> ('s, knowledge_search_result list) io" where
  "searchSimilar env km queryText limit scoreThreshold =
     try_catch
       (bind (vectorizeText env queryText) (\<lambda>queryVector.
        bind (search env (km_collectionName km) queryVector limit
                (Some [''text'', ''topic'', ''weight'', ''created_at'', ''title'', ''tags''])) (\<lambda>results.
          ret (filter_loop results scoreThreshold []))))
       (\<lambda>e. throw e)"

text \<open>
  \<open>texts.map((text, index) => ...)\<close> of \<open>batchVectorizeAndStore\<close>: each item reads the clock.
  \<open>metadatas[index]\<close> is in range, the lengths having been compared before.
\<close>

fun build_items ::
  "'s env \<Rightarrow> string list \<Rightarrow> metadata list \<Rightarrow> real list list \<Rightarrow> nat \<Rightarrow> ('s, knowledge_item list) io" where
  "build_items env [] metadatas vectors i = ret []"
| "build_items env (txt # texts) metadatas vectors i =
     bind (unix_now env) (\<lambda>now.
     bind (build_items env texts metadatas vectors (Suc i)) (\<lambda>rest.
       ret (\<lparr>vector = nth_opt vectors i, ki_text = txt, topic = md_topic (metadatas ! i),
             weight = md_weight (metadatas ! i), title = md_title (metadatas ! i),
             tags = md_tags (metadatas ! i), created_at = now\<rparr> # rest)))"

text \<open>\<open>texts.map(() => uuidv4())\<close>.\<close>

fun uuid_each :: "'s env \<Rightarrow> 'a list \<Rightarrow> ('s, string list) io" where
  "uuid_each env [] = ret []"
| "uuid_each env (x # xs) =
     bind (uuidv4 env) (\<lambda>u. bind (uuid_each env xs) (\<lambda>us. ret (u # us)))"

definition batchVectorizeAndStore ::
  "'s env \<Rightarrow> knowledge_manager \<Rightarrow> string list \<Rightarrow> metadata list \<Rightarrow> ('s, string list) io" where
  "batchVectorizeAndStore env km texts metadatas =
     (if length texts \<noteq> length metadatas then throw LengthMismatch
      else
        try_catch
          (bind (vectorizeTexts env texts) (\<lambda>vectors.
           bind (build_items env texts metadatas vectors 0) (\<lambda>knowledgeItems.
           bind (insertData env (km_collectionName km) knowledgeItems (km_vectorDim km)) (\<lambda>success.
             if success then bind (uuid_each env texts) (\<lambda>docIds. ret docIds)
             else throw BatchStoreFailed))))
          (\<lambda>e. throw e))"

subsection \<open>A small in-memory service, for concrete runs\<close>

text \<open>
  A toy embedding service and a toy vector database, used to run the code above on
  concrete inputs. The database keeps the names of its collections and of the loaded
  ones, assigns consecutive integer identifiers to inserted rows, and answers every
  search on a loaded collection with the first \<open>limit\<close> rows of \<open>hits\<close>. The two flags
  make the embedding call and the load call fail.
\<close>

record demo_state =
  colls :: "string list"
  loaded :: "string list"
  next_id :: int
  hits :: "db_row list"
  load_ok :: bool
  qwen_ok :: bool

definition demo_qwen :: "demo_state \<Rightarrow> string list \<Rightarrow> embed_reply \<times> demo_state" where
  "demo_qwen s texts =
     (if qwen_ok s
      then (EmbedResponse
              (Some (map (\<lambda>(i, t). \<lparr>embedding = Some [real (length t)], index = i\<rparr>)
                       (enumerate 0 texts))), s)
      else (EmbedAxiosError, s))"

fun demo_zilliz :: "demo_state \<Rightarrow> db_request \<Rightarrow> db_reply \<times> demo_state" where
  "demo_zilliz s ListReq = (Reply 0 (Some (DNames (colls s))), s)"
| "demo_zilliz s (CreateReq n fs ips) =
     (if n \<in> set (colls s) then (Reply 65535 None, s)
      else (Reply 0 None, s\<lparr>colls := colls s @ [n]\<rparr>))"
| "demo_zilliz s (InsertReq n items) =
     (if n \<in> set (colls s)
      then (Reply 0 (Some (DObject (map (\<lambda>i. IdNum (next_id s + int i)) [0..<length items]))),
            s\<lparr>next_id := next_id s + int (length items)\<rparr>)
      else (Reply 100 None, s))"
| "demo_zilliz s (LoadReq n) =
     (if load_ok s \<and> n \<in> set (colls s) then (Reply 0 None, s\<lparr>loaded := n # loaded s\<rparr>)
      else (ReplyAxiosError, s))"
| "demo_zilliz s (SearchReq n q f k ofs) =
     (if n \<in> set (loaded s) then (Reply 0 (Some (DRows (take k (hits s)))), s)
      else (Reply 101 None, s))"

definition demo_env :: "demo_state env" where
  "demo_env =
     \<lparr>qwen_srv = demo_qwen, zilliz_srv = demo_zilliz,
      uuid_src = (\<lambda>n. replicate (Suc n) CHR ''u''),
      clock_src = (\<lambda>n. 1700000000000 + int n)\<rparr>"

text \<open>An embedding service that answers every batch with a single item.\<close>

definition one_item_qwen :: "demo_state \<Rightarrow> string list \<Rightarrow> embed_reply \<times> demo_state" where
  "one_item_qwen s texts = (EmbedResponse (Some [\<lparr>embedding = Some [1], index = 0\<rparr>]), s)"

definition one_item_env :: "demo_state env" where
  "one_item_env = demo_env\<lparr>qwen_srv := one_item_qwen\<rparr>"

definition row :: "int \<Rightarrow> real \<Rightarrow> string \<Rightarrow> db_row" where
  "row i d t =
     \<lparr>row_id = Some (IdNum i), row_distance = Some d, row_score = None, row_text = Some t,
      row_topic = Some ''tech'', row_weight = Some 2, row_created_at = Some 1700000000,
      row_title = Some ''note'', row_tags = Some [''a'']\<rparr>"

text \<open>A row of which the database delivers nothing.\<close>

definition bare_row :: db_row where
  "bare_row =
     \<lparr>row_id = None, row_distance = None, row_score = None, row_text = None, row_topic = None,
      row_weight = None, row_created_at = None, row_title = None, row_tags = None\<rparr>"

definition demo_db :: "string list \<Rightarrow> int \<Rightarrow> db_row list \<Rightarrow> bool \<Rightarrow> bool \<Rightarrow> demo_state" where
  "demo_db cs n hs l q =
     \<lparr>colls = cs, loaded = [], next_id = n, hits = hs, load_ok = l, qwen_ok = q\<rparr>"

definition start :: "demo_state \<Rightarrow> demo_state world" where
  "start s = \<lparr>srv_state = s, calls = [], uuid_pos = 0, clock_pos = 0\<rparr>"

definition kb :: knowledge_manager where
  "kb = \<lparr>km_collectionName = ''kb'', km_vectorDim = 1024\<rparr>"

definition md0 :: metadata where
  "md0 = \<lparr>md_topic = ''tech'', md_weight = 2, md_title = ''note'', md_tags = [''a'']\<rparr>"

text \<open>Four rows in descending order of distance; of the last the database delivers no field.\<close>

definition demo_hits :: "db_row list" where
  "demo_hits = [row 1 0.9 ''x'', row 2 0.5 ''y'', row 3 0.3 ''z'', bare_row]"

text \<open>The toy database with a search path that is down.\<close>

fun no_search_zilliz :: "demo_state \<Rightarrow> db_request \<Rightarrow> db_reply \<times> demo_state" where
  "no_search_zilliz s (SearchReq n q f k ofs) = (ReplyAxiosError, s)"
| "no_search_zilliz s req = demo_zilliz s req"

definition no_search_env :: "demo_state env" where
  "no_search_env = demo_env\<lparr>zilliz_srv := no_search_zilliz\<rparr>"

definition item0 :: knowledge_item where
  "item0 = \<lparr>vector = Some [5], ki_text = ''hello'', topic = ''tech'', weight = 2,
             title = ''note'', tags = [''a''], created_at = 1700000000\<rparr>"

text \<open>A row with no distance and a score, as some versions of the search API deliver it.\<close>

definition score_row :: db_row where
  "score_row = bare_row\<lparr>row_score := Some 0.7\<rparr>"

section \<open>Properties\<close>

lemmas monad_defs = try_catch_def bind_def ret_def throw_def lift_def

lemmas zilliz_defs = request_def listCollections_def createCollection_def loadCollection_def
  insertData_def search_def

lemmas demo_defs = demo_env_def demo_qwen_def demo_db_def start_def kb_def md0_def

lemmas row_defs = demo_hits_def row_def bare_row_def format_row_def to_result_def
  or_number_def or_string_def or_array_def or_id_def

subsection \<open>The embedding client\<close>

lemma extract_vectors_ok:
  "\<forall>it\<in>set items. embedding it \<noteq> None \<Longrightarrow>
   extract_vectors items acc = Inr (acc @ map (the \<circ> embedding) items)"
  by (induction items arbitrary: acc) (auto split: option.splits)

lemma extract_vectors_Inr:
  "extract_vectors items acc = Inr vs \<Longrightarrow>
   (\<forall>it\<in>set items. embedding it \<noteq> None) \<and> vs = acc @ map (the \<circ> embedding) items"
proof (induction items arbitrary: acc)
  case Nil
  then show ?case by simp
next
  case (Cons item items)
  from Cons.prems obtain e where e: "embedding item = Some e"
    and rest: "extract_vectors items (acc @ [e]) = Inr vs"
    by (cases "embedding item") auto
  from Cons.IH [OF rest] e show ?case by simp
qed

lemma callEmbeddingApi_calls:
  "calls (snd (callEmbeddingApi env texts w)) = calls w @ [EmbedPost texts]"
  by (simp add: callEmbeddingApi_def axios_post_embeddings_def
      split: prod.splits embed_reply.splits option.splits)

lemma callEmbeddingApi_fst:
  "fst (callEmbeddingApi env texts w) =
     (case fst (qwen_srv env (srv_state w) texts) of
        EmbedAxiosError \<Rightarrow> Inl ApiRequestFailed
      | EmbedResponse None \<Rightarrow> Inl (VectorizeFailed ResponseFormat)
      | EmbedResponse (Some items) \<Rightarrow> extract_vectors items [])"
  by (simp add: callEmbeddingApi_def axios_post_embeddings_def
      split: prod.splits embed_reply.splits option.splits)

lemma vectorizeTexts_eq: "vectorizeTexts env texts w = callEmbeddingApi env texts w"
  by (simp add: vectorizeTexts_def try_catch_def throw_def split: prod.splits sum.splits)

text \<open>
  What \<open>vectorizeTexts\<close> does for every reply. It makes exactly one remote embedding call,
  with the whole list of texts, whatever the outcome. What it returns is read off the
  reply: one vector per item of the reply's \<open>data\<close>, in the reply's order. When the service
  answers with as many items as texts, each with an embedding, the result has
  \<open>length texts\<close> vectors and the i-th is the embedding of the i-th item.
\<close>

lemma vectorizeTexts_one_call_per_batch:
  "calls (snd (vectorizeTexts env texts w)) = calls w @ [EmbedPost texts] \<and>
   (fst (qwen_srv env (srv_state w) texts) = EmbedResponse (Some items) \<and>
    length items = length texts \<and> (\<forall>it\<in>set items. embedding it \<noteq> None) \<longrightarrow>
    (\<exists>vs. fst (vectorizeTexts env texts w) = Inr vs \<and> length vs = length texts \<and>
          (\<forall>i<length texts. embedding (items ! i) = Some (vs ! i)))) \<and>
   (\<forall>vs. fst (vectorizeTexts env texts w) = Inr vs \<longrightarrow>
      (\<exists>its. fst (qwen_srv env (srv_state w) texts) = EmbedResponse (Some its) \<and>
             vs = map (the \<circ> embedding) its))"
proof (intro conjI impI allI)
  show "calls (snd (vectorizeTexts env texts w)) = calls w @ [EmbedPost texts]"
    by (simp add: vectorizeTexts_eq callEmbeddingApi_calls)
next
  assume h: "fst (qwen_srv env (srv_state w) texts) = EmbedResponse (Some items) \<and>
    length items = length texts \<and> (\<forall>it\<in>set items. embedding it \<noteq> None)"
  then have "fst (vectorizeTexts env texts w) = Inr (map (the \<circ> embedding) items)"
    by (simp add: vectorizeTexts_eq callEmbeddingApi_fst extract_vectors_ok)
  moreover have "\<forall>i<length texts. embedding (items ! i) = Some (map (the \<circ> embedding) items ! i)"
    using h by auto
  ultimately show "\<exists>vs. fst (vectorizeTexts env texts w) = Inr vs \<and> length vs = length texts \<and>
          (\<forall>i<length texts. embedding (items ! i) = Some (vs ! i))"
    using h by simp
next
  fix vs
  assume "fst (vectorizeTexts env texts w) = Inr vs"
  then show "\<exists>its. fst (qwen_srv env (srv_state w) texts) = EmbedResponse (Some its) \<and>
             vs = map (the \<circ> embedding) its"
    by (auto simp: vectorizeTexts_eq callEmbeddingApi_fst
        split: embed_reply.splits option.splits dest: extract_vectors_Inr)
qed

lemma vectorizeTexts_demo_batch:
  "calls (snd (vectorizeTexts demo_env [''a'', ''bc''] (start (demo_db [] 1 [] True True))))
     = [EmbedPost [''a'', ''bc'']] \<and>
   fst (vectorizeTexts demo_env [''a'', ''bc''] (start (demo_db [] 1 [] True True)))
     = Inr [[1], [2]]"
  using vectorizeTexts_one_call_per_batch
          [of demo_env "[''a'', ''bc'']" "start (demo_db [] 1 [] True True)"
              "[\<lparr>embedding = Some [1], index = 0\<rparr>, \<lparr>embedding = Some [2], index = 1\<rparr>]"]
  by (simp add: vectorizeTexts_eq callEmbeddingApi_fst demo_defs enumerate_eq_zip)

text \<open>
  C1, at an input where the code departs from it. The embedding service answers a batch
  of two texts with a single item. \<open>vectorizeTexts\<close> returns one vector for the two texts:
  the number of items of the reply is never compared with the number of texts, although
  the documentation of the method promises one vector for each input text and the single
  text path \<open>vectorizeText\<close> does reject an empty reply.
\<close>

theorem vectorizeTexts_short_reply:
  "fst (vectorizeTexts one_item_env [''a'', ''b''] (start (demo_db [] 1 [] True True))) = Inr [[1]]
   \<and> length (projr (fst (vectorizeTexts one_item_env [''a'', ''b'']
                              (start (demo_db [] 1 [] True True)))))
       \<noteq> length [''a'', ''b'']"
  by (simp add: vectorizeTexts_eq callEmbeddingApi_fst one_item_env_def one_item_qwen_def
      demo_env_def start_def)

subsection \<open>The manager: validation before any remote call\<close>

text \<open>
  C2. When the two arrays differ in length, \<open>batchVectorizeAndStore\<close> throws the length
  error and the world is the one it started in: no call was logged and the state of the
  remote services is untouched.
\<close>

theorem batchVectorizeAndStore_length_mismatch:
  "length texts \<noteq> length metadatas \<Longrightarrow>
   batchVectorizeAndStore env km texts metadatas w = (Inl LengthMismatch, w) \<and>
   calls (snd (batchVectorizeAndStore env km texts metadatas w)) = calls w \<and>
   srv_state (snd (batchVectorizeAndStore env km texts metadatas w)) = srv_state w"
  by (simp add: batchVectorizeAndStore_def throw_def)

theorem batchVectorizeAndStore_length_mismatch_witness:
  "length [''a'', ''b''] \<noteq> length [md0] \<and>
   batchVectorizeAndStore demo_env kb [''a'', ''b''] [md0] (start (demo_db [] 1 [] True True))
     = (Inl LengthMismatch, start (demo_db [] 1 [] True True)) \<and>
   calls (snd (batchVectorizeAndStore demo_env kb [''a'', ''b''] [md0]
                 (start (demo_db [] 1 [] True True)))) = []"
  using batchVectorizeAndStore_length_mismatch
          [of "[''a'', ''b'']" "[md0]" demo_env kb "start (demo_db [] 1 [] True True)"]
  by (simp add: start_def)

subsection \<open>The embedding client: the dimension probe\<close>

lemma vectorizeText_eq:
  "vectorizeText env txt w =
     (case callEmbeddingApi env [txt] w of
        (Inl e, w') \<Rightarrow> (Inl e, w')
      | (Inr [], w') \<Rightarrow> (Inl EmptyResult, w')
      | (Inr (v # vs), w') \<Rightarrow> (Inr v, w'))"
  by (simp add: vectorizeText_def try_catch_def bind_def throw_def ret_def
      split: prod.splits sum.splits list.splits)

lemma demo_probe_fails:
  "fst (vectorizeText demo_env probe_text (start (demo_db [] 1 [] True False))) = Inl ApiRequestFailed"
  by (simp add: vectorizeText_eq callEmbeddingApi_def axios_post_embeddings_def demo_defs)

lemma demo_probe_succeeds:
  "fst (vectorizeText demo_env probe_text (start (demo_db [] 1 [] True True))) = Inr [6]"
  by (simp add: vectorizeText_eq callEmbeddingApi_def axios_post_embeddings_def demo_defs
      probe_text_def enumerate_eq_zip)

text \<open>
  C7. \<open>getVectorDimension\<close> always returns a number, never an error. When the probe
  \<open>vectorizeText\<close> fails, with whatever error, the number is 1024; when the probe returns a
  vector, the number is the length of that vector.
\<close>

theorem getVectorDimension_fallback:
  "(\<exists>n. fst (getVectorDimension env w) = Inr n) \<and>
   (\<forall>e. fst (vectorizeText env probe_text w) = Inl e \<longrightarrow>
        fst (getVectorDimension env w) = Inr 1024) \<and>
   (\<forall>v. fst (vectorizeText env probe_text w) = Inr v \<longrightarrow>
        fst (getVectorDimension env w) = Inr (length v))"
  by (auto simp: getVectorDimension_def try_catch_def bind_def ret_def
      split: prod.splits sum.splits)

theorem getVectorDimension_fallback_witness:
  "fst (vectorizeText demo_env probe_text (start (demo_db [] 1 [] True False))) = Inl ApiRequestFailed \<and>
   fst (getVectorDimension demo_env (start (demo_db [] 1 [] True False))) = Inr 1024 \<and>
   fst (vectorizeText demo_env probe_text (start (demo_db [] 1 [] True True))) = Inr [6] \<and>
   fst (getVectorDimension demo_env (start (demo_db [] 1 [] True True))) = Inr 1"
  using getVectorDimension_fallback [of demo_env "start (demo_db [] 1 [] True False)"]
        getVectorDimension_fallback [of demo_env "start (demo_db [] 1 [] True True)"]
        demo_probe_fails demo_probe_succeeds
  by simp

subsection \<open>What an operation leaves alone\<close>

lemma keeps_bind:
  assumes "\<And>w. f (snd (m w)) = f w" and "\<And>a w. f (snd (k a w)) = f w"
  shows "f (snd (bind m k w)) = f w"
proof (cases "m w")
  case (Pair r w')
  with assms(1) [of w] have "f w' = f w" by simp
  with Pair assms(2) show ?thesis by (cases r) (simp_all add: bind_def)
qed

lemma keeps_try_catch:
  assumes "\<And>w. f (snd (m w)) = f w" and "\<And>e w. f (snd (h e w)) = f w"
  shows "f (snd (try_catch m h w)) = f w"
proof (cases "m w")
  case (Pair r w')
  with assms(1) [of w] have "f w' = f w" by simp
  with Pair assms(2) show ?thesis by (cases r) (simp_all add: try_catch_def)
qed

lemma keeps_ret: "f (snd (ret a w)) = f w"
  by (simp add: ret_def)

lemma keeps_throw: "f (snd (throw e w)) = f w"
  by (simp add: throw_def)

lemma keeps_lift: "f (snd (lift r w)) = f w"
  by (simp add: lift_def)

lemmas keeps = keeps_bind keeps_try_catch keeps_ret keeps_throw keeps_lift

lemma request_uuid_pos: "uuid_pos (snd (request env req w)) = uuid_pos w"
  by (simp add: request_def Let_def split: prod.splits db_reply.splits)

lemma listCollections_uuid_pos: "uuid_pos (snd (listCollections env w)) = uuid_pos w"
  unfolding listCollections_def by (intro keeps request_uuid_pos)

lemma createCollection_uuid_pos: "uuid_pos (snd (createCollection env n d ds w)) = uuid_pos w"
  unfolding createCollection_def
  by (intro keeps listCollections_uuid_pos) (simp add: keeps request_uuid_pos)

lemma loadCollection_uuid_pos: "uuid_pos (snd (loadCollection env n w)) = uuid_pos w"
  unfolding loadCollection_def
  by (intro keeps listCollections_uuid_pos) (simp add: keeps request_uuid_pos)

lemma insertData_uuid_pos: "uuid_pos (snd (insertData env n items d w)) = uuid_pos w"
  unfolding insertData_def
  by (intro keeps listCollections_uuid_pos)
     (simp_all add: keeps request_uuid_pos createCollection_uuid_pos loadCollection_uuid_pos)

lemma callEmbeddingApi_uuid_pos: "uuid_pos (snd (callEmbeddingApi env texts w)) = uuid_pos w"
  by (simp add: callEmbeddingApi_def axios_post_embeddings_def
      split: prod.splits embed_reply.splits option.splits)

lemma vectorizeText_uuid_pos: "uuid_pos (snd (vectorizeText env t w)) = uuid_pos w"
  unfolding vectorizeText_def
  by (intro keeps callEmbeddingApi_uuid_pos) (simp add: keeps split: list.splits)

lemma unix_now_uuid_pos: "uuid_pos (snd (unix_now env w)) = uuid_pos w"
  by (simp add: unix_now_def)

subsection \<open>The manager: the identifier that a store returns\<close>

lemma vectorizeAndStore_id:
  assumes "vectorizeAndStore env km t md w = (Inr docId, w')"
  shows "docId = uuid_src env (uuid_pos w)"
proof -
  obtain r1 w1 where s1: "vectorizeText env t w = (r1, w1)" by (cases "vectorizeText env t w")
  obtain r2 w2 where s2: "unix_now env w1 = (r2, w2)" by (cases "unix_now env w1")
  have p1: "uuid_pos w1 = uuid_pos w" using vectorizeText_uuid_pos [of env t w] s1 by simp
  have p2: "uuid_pos w2 = uuid_pos w1" using unix_now_uuid_pos [of env w1] s2 by simp
  from assms s1 obtain vec where r1: "r1 = Inr vec"
    by (cases r1) (simp_all add: vectorizeAndStore_def try_catch_def bind_def throw_def)
  from s2 obtain now where r2: "r2 = Inr now" by (auto simp: unix_now_def)
  let ?ins = "insertData env (km_collectionName km)
                [\<lparr>vector = Some vec, ki_text = t, topic = md_topic md, weight = md_weight md,
                  title = md_title md, tags = md_tags md, created_at = now\<rparr>]
                (km_vectorDim km)"
  obtain r3 w3 where s3: "?ins w2 = (r3, w3)" by (cases "?ins w2")
  have "uuid_pos (snd (?ins w2)) = uuid_pos w2" by (rule insertData_uuid_pos)
  with s3 have p3: "uuid_pos w3 = uuid_pos w2" by simp
  from assms s1 s2 s3 r1 r2 have "r3 = Inr True \<and> docId = uuid_src env (uuid_pos w3)"
    by (cases r3)
       (auto simp: vectorizeAndStore_def try_catch_def bind_def throw_def ret_def uuidv4_def
          split: if_splits)
  with p1 p2 p3 show ?thesis by simp
qed

text \<open>When the text is vectorized and the insert reports success, the store returns.\<close>

lemma vectorizeAndStore_returns:
  assumes "vectorizeText env t w = (Inr vec, wa)"
      and "insertData env (km_collectionName km)
             [\<lparr>vector = Some vec, ki_text = t, topic = md_topic md, weight = md_weight md,
               title = md_title md, tags = md_tags md,
               created_at = clock_src env (clock_pos wa) div 1000\<rparr>]
             (km_vectorDim km) (wa\<lparr>clock_pos := Suc (clock_pos wa)\<rparr>) = (Inr True, wb)"
  shows "vectorizeAndStore env km t md w =
           (Inr (uuid_src env (uuid_pos w)), wb\<lparr>uuid_pos := Suc (uuid_pos w)\<rparr>)"
proof -
  have p1: "uuid_pos wa = uuid_pos w" using vectorizeText_uuid_pos [of env t w] assms(1) by simp
  have "uuid_pos (snd (insertData env (km_collectionName km)
             [\<lparr>vector = Some vec, ki_text = t, topic = md_topic md, weight = md_weight md,
               title = md_title md, tags = md_tags md,
               created_at = clock_src env (clock_pos wa) div 1000\<rparr>]
             (km_vectorDim km) (wa\<lparr>clock_pos := Suc (clock_pos wa)\<rparr>)))
          = uuid_pos (wa\<lparr>clock_pos := Suc (clock_pos wa)\<rparr>)"
    by (rule insertData_uuid_pos)
  with assms(2) p1 have p2: "uuid_pos wb = uuid_pos w" by simp
  show ?thesis
    using assms p2
    by (simp add: vectorizeAndStore_def try_catch_def bind_def ret_def unix_now_def uuidv4_def)
qed

lemma demo_hello:
  "vectorizeText demo_env ''hello'' (start (demo_db cs n hs l True)) =
     (Inr [5], (start (demo_db cs n hs l True))\<lparr>calls := [EmbedPost [''hello'']]\<rparr>)"
  by (simp add: vectorizeText_eq callEmbeddingApi_def axios_post_embeddings_def demo_defs
      enumerate_eq_zip)

lemma demo_insert:
  "fst (insertData demo_env (km_collectionName kb)
          [\<lparr>vector = Some [5], ki_text = ''hello'', topic = md_topic md0, weight = md_weight md0,
            title = md_title md0, tags = md_tags md0,
            created_at =
              clock_src demo_env
                (clock_pos ((start (demo_db [''kb''] n [] True True))
                              \<lparr>calls := [EmbedPost [''hello'']]\<rparr>)) div 1000\<rparr>]
          (km_vectorDim kb)
          ((start (demo_db [''kb''] n [] True True))
             \<lparr>calls := [EmbedPost [''hello'']],
              clock_pos :=
                Suc (clock_pos ((start (demo_db [''kb''] n [] True True))
                                  \<lparr>calls := [EmbedPost [''hello'']]\<rparr>))\<rparr>))
    = Inr True"
  by (simp add: monad_defs zilliz_defs demo_defs)

text \<open>
  C3. Take two runs of \<open>vectorizeAndStore\<close>, against any two environments, in each of which
  the text is vectorized and \<open>insertData\<close> reports success, whatever the database replied
  and whatever identifiers it assigned. Started at the same position of the same random
  stream, both runs return, and both return the same identifier: the element of the
  stream at that position. Each run takes that element off the stream (the position
  advances by one), so the identifier is a new one at every call. Nothing that the
  database sent reaches the result.
\<close>

theorem vectorizeAndStore_id_independent_of_database:
  assumes "vectorizeText env1 t1 w1 = (Inr v1, wa1)"
      and "insertData env1 (km_collectionName km1)
             [\<lparr>vector = Some v1, ki_text = t1, topic = md_topic md1, weight = md_weight md1,
               title = md_title md1, tags = md_tags md1,
               created_at = clock_src env1 (clock_pos wa1) div 1000\<rparr>]
             (km_vectorDim km1) (wa1\<lparr>clock_pos := Suc (clock_pos wa1)\<rparr>) = (Inr True, wb1)"
      and "vectorizeText env2 t2 w2 = (Inr v2, wa2)"
      and "insertData env2 (km_collectionName km2)
             [\<lparr>vector = Some v2, ki_text = t2, topic = md_topic md2, weight = md_weight md2,
               title = md_title md2, tags = md_tags md2,
               created_at = clock_src env2 (clock_pos wa2) div 1000\<rparr>]
             (km_vectorDim km2) (wa2\<lparr>clock_pos := Suc (clock_pos wa2)\<rparr>) = (Inr True, wb2)"
      and "uuid_src env1 = uuid_src env2" and "uuid_pos w1 = uuid_pos w2"
  shows "vectorizeAndStore env1 km1 t1 md1 w1 =
           (Inr (uuid_src env1 (uuid_pos w1)), wb1\<lparr>uuid_pos := Suc (uuid_pos w1)\<rparr>) \<and>
         vectorizeAndStore env2 km2 t2 md2 w2 =
           (Inr (uuid_src env1 (uuid_pos w1)), wb2\<lparr>uuid_pos := Suc (uuid_pos w1)\<rparr>)"
  using vectorizeAndStore_returns [OF assms(1,2)] vectorizeAndStore_returns [OF assms(3,4)]
        assms(5,6)
  by simp

theorem vectorizeAndStore_id_independent_of_database_witness:
  "fst (vectorizeAndStore demo_env kb ''hello'' md0 (start (demo_db [''kb''] 7 [] True True)))
     = Inr ''u'' \<and>
   fst (vectorizeAndStore demo_env kb ''hello'' md0 (start (demo_db [''kb''] 100 [] True True)))
     = Inr ''u'' \<and>
   uuid_pos (snd (vectorizeAndStore demo_env kb ''hello'' md0
                    (start (demo_db [''kb''] 7 [] True True)))) = 1 \<and>
   fst (demo_zilliz (demo_db [''kb''] 7 [] True True) (InsertReq ''kb'' [item0]))
     = Reply 0 (Some (DObject [IdNum 7])) \<and>
   fst (demo_zilliz (demo_db [''kb''] 100 [] True True) (InsertReq ''kb'' [item0]))
     = Reply 0 (Some (DObject [IdNum 100]))"
proof -
  let ?wa = "\<lambda>n. (start (demo_db [''kb''] n [] True True))\<lparr>calls := [EmbedPost [''hello'']]\<rparr>"
  let ?ins = "\<lambda>n. insertData demo_env (km_collectionName kb)
          [\<lparr>vector = Some [5], ki_text = ''hello'', topic = md_topic md0, weight = md_weight md0,
            title = md_title md0, tags = md_tags md0,
            created_at = clock_src demo_env (clock_pos (?wa n)) div 1000\<rparr>]
          (km_vectorDim kb) ((?wa n)\<lparr>clock_pos := Suc (clock_pos (?wa n))\<rparr>)"
  have i: "?ins n = (Inr True, snd (?ins n))" for n
    using demo_insert [of n] by (simp add: prod_eq_iff)
  from vectorizeAndStore_id_independent_of_database
         [OF demo_hello i [of 7] demo_hello i [of 100]]
  show ?thesis by (simp add: demo_defs)
qed

text \<open>The batch path hands out one identifier of the stream per text, in the same way.\<close>

lemma uuid_each_eq:
  "uuid_each env xs w =
     (Inr (map (uuid_src env) [uuid_pos w ..< uuid_pos w + length xs]),
      w\<lparr>uuid_pos := uuid_pos w + length xs\<rparr>)"
proof (induction xs arbitrary: w)
  case Nil
  then show ?case by (simp add: ret_def)
next
  case (Cons x xs)
  have u: "[uuid_pos w ..< uuid_pos w + length (x # xs)] =
             uuid_pos w # [Suc (uuid_pos w) ..< Suc (uuid_pos w) + length xs]"
    by (simp add: upt_rec)
  show ?case
    unfolding u by (simp add: bind_def ret_def uuidv4_def Cons.IH)
qed

lemma vectorizeTexts_uuid_pos: "uuid_pos (snd (vectorizeTexts env texts w)) = uuid_pos w"
  by (simp add: vectorizeTexts_eq callEmbeddingApi_uuid_pos)

lemma build_items_uuid_pos: "uuid_pos (snd (build_items env texts mds vs i w)) = uuid_pos w"
proof (induction texts arbitrary: i w)
  case Nil
  then show ?case by (simp add: ret_def)
next
  case (Cons t texts)
  show ?case
    unfolding build_items.simps
    by (intro keeps unix_now_uuid_pos Cons.IH)
qed

lemma batchVectorizeAndStore_ids:
  assumes "batchVectorizeAndStore env km texts mds w = (Inr ids, w')"
  shows "ids = map (uuid_src env) [uuid_pos w ..< uuid_pos w + length texts]"
proof -
  have len: "length texts = length mds"
    using assms by (auto simp: batchVectorizeAndStore_def throw_def split: if_splits)
  obtain r1 w1 where s1: "vectorizeTexts env texts w = (r1, w1)"
    by (cases "vectorizeTexts env texts w")
  have p1: "uuid_pos w1 = uuid_pos w" using vectorizeTexts_uuid_pos [of env texts w] s1 by simp
  from assms s1 len obtain vs where r1: "r1 = Inr vs"
    by (cases r1) (simp_all add: batchVectorizeAndStore_def try_catch_def bind_def throw_def)
  obtain r2 w2 where s2: "build_items env texts mds vs 0 w1 = (r2, w2)"
    by (cases "build_items env texts mds vs 0 w1")
  have p2: "uuid_pos w2 = uuid_pos w1"
    using build_items_uuid_pos [of env texts mds vs 0 w1] s2 by simp
  from assms s1 s2 r1 len obtain its where r2: "r2 = Inr its"
    by (cases r2) (simp_all add: batchVectorizeAndStore_def try_catch_def bind_def throw_def)
  let ?ins = "insertData env (km_collectionName km) its (km_vectorDim km)"
  obtain r3 w3 where s3: "?ins w2 = (r3, w3)" by (cases "?ins w2")
  have "uuid_pos (snd (?ins w2)) = uuid_pos w2" by (rule insertData_uuid_pos)
  with s3 have p3: "uuid_pos w3 = uuid_pos w2" by simp
  from assms s1 s2 s3 r1 r2 len
  have "ids = map (uuid_src env) [uuid_pos w3 ..< uuid_pos w3 + length texts]"
    by (cases r3)
       (auto simp: batchVectorizeAndStore_def try_catch_def bind_def throw_def ret_def
          uuid_each_eq split: if_splits)
  with p1 p2 p3 show ?thesis by simp
qed

subsection \<open>The database client: soft failure of the read path\<close>

lemma loadCollection_returns: "\<exists>b. fst (loadCollection env n w) = Inr b"
  by (auto simp: loadCollection_def monad_defs split: prod.splits sum.splits)

lemma search_never_raises: "\<exists>rs. fst (search env n qv k ofs w) = Inr rs"
  by (auto simp: search_def monad_defs split: prod.splits sum.splits)

text \<open>A collection that the list does not show cannot be loaded.\<close>

lemma loadCollection_absent:
  "fst (listCollections env w) = Inr cs \<Longrightarrow> array_includes cs n \<noteq> Inr True \<Longrightarrow>
   fst (loadCollection env n w) = Inr False"
  by (cases "array_includes cs n")
     (auto simp: loadCollection_def monad_defs split: prod.splits sum.splits)

text \<open>
  C4. When \<open>loadCollection\<close> reports that the collection could not be loaded (it is not in
  the list, or the load request failed), or when the collection was loaded and the search
  request itself fails, \<open>search\<close> returns the empty list as a value; it does not throw.
\<close>

theorem search_soft_failure:
  assumes "fst (loadCollection env n w) = Inr False \<or>
           isl (fst (request env
                       (SearchReq n [qv] ''vector'' k
                          (case ofs of None \<Rightarrow> default_output_fields | Some fs \<Rightarrow> fs))
                       (snd (loadCollection env n w))))"
  shows "fst (search env n qv k ofs w) = Inr []"
  using assms
  by (auto simp: search_def monad_defs split: prod.splits sum.splits)

theorem search_soft_failure_witness:
  "fst (loadCollection demo_env ''nope'' (start (demo_db [''kb''] 7 demo_hits True True))) = Inr False \<and>
   fst (search demo_env ''nope'' [1] 5 None (start (demo_db [''kb''] 7 demo_hits True True))) = Inr [] \<and>
   fst (search no_search_env ''kb'' [1] 5 None (start (demo_db [''kb''] 7 demo_hits True True))) = Inr []"
proof -
  have l: "fst (loadCollection demo_env ''nope'' (start (demo_db [''kb''] 7 demo_hits True True)))
             = Inr False"
    by (simp add: monad_defs zilliz_defs demo_defs)
  have r: "isl (fst (request no_search_env
                       (SearchReq ''kb'' [[1]] ''vector'' 5
                          (case None of None \<Rightarrow> default_output_fields | Some fs \<Rightarrow> fs))
                       (snd (loadCollection no_search_env ''kb''
                               (start (demo_db [''kb''] 7 demo_hits True True))))))"
    by (simp add: monad_defs zilliz_defs demo_defs no_search_env_def)
  from l r show ?thesis
    using search_soft_failure [of demo_env "''nope''" _ "[1]" 5 None, OF disjI1, OF l]
          search_soft_failure [of no_search_env "''kb''" _ "[1]" 5 None, OF disjI2, OF r]
    by simp
qed

subsection \<open>The database client: creating a collection that exists\<close>

lemma listCollections_snd:
  "snd (listCollections env w) =
     w\<lparr>srv_state := snd (zilliz_srv env (srv_state w) ListReq),
       calls := calls w @ [ZillizPost ListReq]\<rparr>"
  by (simp add: listCollections_def request_def monad_defs Let_def
      split: prod.splits sum.splits db_reply.splits)

text \<open>A first call on a database without the collection sends the create request.\<close>

lemma demo_first_create:
  "createCollection demo_env ''kb'' 1024 [] (start (demo_db [] 1 [] True True)) =
     (Inr True,
      \<lparr>srv_state = demo_db [''kb''] 1 [] True True,
       calls = [ZillizPost ListReq,
                ZillizPost (CreateReq ''kb'' (schema_fields 1024) indexParams)],
       uuid_pos = 0, clock_pos = 0\<rparr>)"
  by (simp add: monad_defs zilliz_defs demo_defs)

text \<open>
  C8. When the list of collections that \<open>createCollection\<close> fetches contains the name, the
  call returns \<open>true\<close> and the world is the one that the list request left: the one remote
  call made is that list request, no create request is sent, the state of the database is
  what the list request alone made of it, and neither the dimension nor the description
  takes part (the result is the same for every dimension). Calling again changes nothing.
\<close>

theorem createCollection_existing:
  assumes "listCollections env w = (Inr cs, w1)" and "array_includes cs n = Inr True"
  shows "createCollection env n d ds w = (Inr True, w1) \<and>
         calls w1 = calls w @ [ZillizPost ListReq] \<and>
         srv_state w1 = snd (zilliz_srv env (srv_state w) ListReq)"
proof -
  have "w1 = snd (listCollections env w)" using assms(1) by simp
  then have "calls w1 = calls w @ [ZillizPost ListReq] \<and>
         srv_state w1 = snd (zilliz_srv env (srv_state w) ListReq)"
    by (simp add: listCollections_snd)
  moreover have "createCollection env n d ds w = (Inr True, w1)"
    using assms by (simp add: createCollection_def monad_defs)
  ultimately show ?thesis by simp
qed

theorem createCollection_existing_witness:
  "createCollection demo_env ''kb'' 1024 [] (start (demo_db [] 1 [] True True)) =
     (Inr True,
      \<lparr>srv_state = demo_db [''kb''] 1 [] True True,
       calls = [ZillizPost ListReq,
                ZillizPost (CreateReq ''kb'' (schema_fields 1024) indexParams)],
       uuid_pos = 0, clock_pos = 0\<rparr>) \<and>
   createCollection demo_env ''kb'' 4 []
     \<lparr>srv_state = demo_db [''kb''] 1 [] True True,
      calls = [ZillizPost ListReq,
               ZillizPost (CreateReq ''kb'' (schema_fields 1024) indexParams)],
      uuid_pos = 0, clock_pos = 0\<rparr> =
     (Inr True,
      \<lparr>srv_state = demo_db [''kb''] 1 [] True True,
       calls = [ZillizPost ListReq,
                ZillizPost (CreateReq ''kb'' (schema_fields 1024) indexParams),
                ZillizPost ListReq],
       uuid_pos = 0, clock_pos = 0\<rparr>)"
proof -
  let ?w = "\<lparr>srv_state = demo_db [''kb''] 1 [] True True,
      calls = [ZillizPost ListReq,
               ZillizPost (CreateReq ''kb'' (schema_fields 1024) indexParams)],
      uuid_pos = 0, clock_pos = 0 :: nat\<rparr>"
  let ?w1 = "\<lparr>srv_state = demo_db [''kb''] 1 [] True True,
       calls = [ZillizPost ListReq,
                ZillizPost (CreateReq ''kb'' (schema_fields 1024) indexParams),
                ZillizPost ListReq],
       uuid_pos = 0, clock_pos = 0 :: nat\<rparr>"
  have l: "listCollections demo_env ?w = (Inr (Data (DNames [''kb''])), ?w1)"
    by (simp add: monad_defs zilliz_defs demo_defs)
  have i: "array_includes (Data (DNames [''kb''])) ''kb'' = Inr True" by simp
  from createCollection_existing [OF l i, of 4 "[]"] demo_first_create show ?thesis by simp
qed

subsection \<open>The database client: insertion\<close>

text \<open>
  A collection that the list does not show is created first, with the fixed schema of
  \<open>createCollection\<close>; when the creation fails nothing is inserted and the result is \<open>false\<close>.
\<close>

lemma insertData_bootstrap:
  assumes "listCollections env w = (Inr cs, w1)" and "array_includes cs n = Inr False"
  shows "insertData env n items d w =
     (case createCollection env n d default_description w1 of
        (Inr True, w2) \<Rightarrow>
          (case request env (InsertReq n items) w2 of
             (Inr r, w3) \<Rightarrow> (Inr True, snd (loadCollection env n w3))
           | (Inl e, w3) \<Rightarrow> (Inr False, w3))
      | (_, w2) \<Rightarrow> (Inr False, w2))"
proof -
  obtain c w2 where c: "createCollection env n d default_description w1 = (c, w2)"
    by (cases "createCollection env n d default_description w1")
  obtain q w3 where q: "request env (InsertReq n items) w2 = (q, w3)"
    by (cases "request env (InsertReq n items) w2")
  obtain b w4 where l: "loadCollection env n w3 = (Inr b, w4)"
    using loadCollection_returns [of env n w3] by (cases "loadCollection env n w3") auto
  show ?thesis
  proof (cases c)
    case (Inl e)
    with assms c show ?thesis by (simp add: insertData_def monad_defs)
  next
    case (Inr ok)
    show ?thesis
    proof (cases ok)
      case False
      with Inr assms c show ?thesis by (simp add: insertData_def monad_defs)
    next
      case True
      with Inr assms c q l show ?thesis
        by (cases q) (simp_all add: insertData_def monad_defs)
    qed
  qed
qed

text \<open>
  After a successful insert request \<open>loadCollection\<close> is called and its result is dropped:
  the result of \<open>insertData\<close> is \<open>true\<close> whether the collection was loaded or not.
\<close>

lemma insertData_true_whatever_load:
  assumes "listCollections env w = (Inr cs, w1)" and "array_includes cs n = Inr True"
      and "request env (InsertReq n items) w1 = (Inr r, w2)"
  shows "insertData env n items d w = (Inr True, snd (loadCollection env n w2))"
proof -
  obtain b w3 where l: "loadCollection env n w2 = (Inr b, w3)"
    using loadCollection_returns [of env n w2] by (cases "loadCollection env n w2") auto
  with assms show ?thesis by (simp add: insertData_def monad_defs)
qed

text \<open>
  C9, at an input where the code departs from it. The collection \<open>kb\<close> exists, the insert
  request succeeds and the load request fails. \<open>insertData\<close> returns \<open>true\<close>, although the
  \<open>loadCollection\<close> that it called after the insert returned \<open>false\<close> and the database has
  no collection loaded.
\<close>

theorem insertData_true_while_load_failed:
  "fst (insertData demo_env ''kb'' [item0] 1024 (start (demo_db [''kb''] 7 [] False True))) = Inr True
   \<and> loaded (srv_state (snd (insertData demo_env ''kb'' [item0] 1024
                                (start (demo_db [''kb''] 7 [] False True))))) = []
   \<and> fst (loadCollection demo_env ''kb''
            (snd (request demo_env (InsertReq ''kb'' [item0])
                    (snd (listCollections demo_env (start (demo_db [''kb''] 7 [] False True)))))))
       = Inr False"
  by (simp add: monad_defs zilliz_defs demo_defs)

subsection \<open>The manager: search\<close>

lemma filter_loop_eq:
  "filter_loop rs t acc = acc @ map to_result (filter (\<lambda>r. t \<le> or_number (sr_distance r) 0) rs)"
  by (induction rs arbitrary: acc) simp_all

lemma similarity_score_to_result: "similarity_score (to_result r) = or_number (sr_distance r) 0"
  by (simp add: to_result_def)

lemma searchSimilar_eq:
  assumes "vectorizeText env q w = (Inr qv, w1)"
      and "search env (km_collectionName km) qv k (Some default_output_fields) w1 = (Inr rs, w2)"
  shows "searchSimilar env km q k t w =
           (Inr (map to_result (filter (\<lambda>r. t \<le> or_number (sr_distance r) 0) rs)), w2)"
  using assms
  by (simp add: searchSimilar_def try_catch_def bind_def ret_def filter_loop_eq
      default_output_fields_def)

lemma length_filter_mono:
  "(\<And>x. P x \<Longrightarrow> Q x) \<Longrightarrow> length (filter P xs) \<le> length (filter Q xs)"
  by (induction xs) auto

lemma sorted_wrt_filter_ge:
  "sorted_wrt (\<ge>) (xs :: real list) \<Longrightarrow> sorted_wrt (\<ge>) (filter P xs)"
  by (induction xs) auto

lemma demo_query:
  "vectorizeText demo_env ''q'' (start (demo_db cs n hs l True)) =
     (Inr [1], (start (demo_db cs n hs l True))\<lparr>calls := [EmbedPost [''q'']]\<rparr>)"
  by (simp add: vectorizeText_eq callEmbeddingApi_def axios_post_embeddings_def demo_defs
      enumerate_eq_zip)

lemma demo_search:
  "fst (search demo_env ''kb'' [1] 5 (Some default_output_fields)
          ((start (demo_db [''kb''] 7 demo_hits True True))\<lparr>calls := [EmbedPost [''q'']]\<rparr>)) =
     Inr (map format_row demo_hits)"
  by (simp add: monad_defs zilliz_defs demo_defs demo_hits_def)

lemma demo_hits_search:
  "search demo_env (km_collectionName kb) [1] 5 (Some default_output_fields)
          ((start (demo_db [''kb''] 7 demo_hits True True))\<lparr>calls := [EmbedPost [''q'']]\<rparr>) =
     (Inr (map format_row demo_hits),
      snd (search demo_env (km_collectionName kb) [1] 5 (Some default_output_fields)
          ((start (demo_db [''kb''] 7 demo_hits True True))\<lparr>calls := [EmbedPost [''q'']]\<rparr>)))"
  using demo_search by (simp add: prod_eq_iff kb_def)

text \<open>
  C5. Let the query be vectorized and let \<open>rs\<close> be the rows that \<open>ZillizManager.search\<close>
  returns. Then \<open>searchSimilar\<close> returns the result objects of exactly the rows of \<open>rs\<close> whose
  score \<open>distance || 0\<close> is greater than or equal to the threshold (a score equal to the
  threshold is kept), in the order of \<open>rs\<close>; the scores returned are the scores of \<open>rs\<close> that
  reach the threshold, in order.
\<close>

theorem searchSimilar_threshold_filter:
  assumes "vectorizeText env q w = (Inr qv, w1)"
      and "search env (km_collectionName km) qv k (Some default_output_fields) w1 = (Inr rs, w2)"
  shows "\<exists>out. searchSimilar env km q k t w = (Inr out, w2) \<and>
           out = map to_result (filter (\<lambda>r. t \<le> or_number (sr_distance r) 0) rs) \<and>
           map similarity_score out =
             filter (\<lambda>s. t \<le> s) (map (\<lambda>r. or_number (sr_distance r) 0) rs)"
  using searchSimilar_eq [OF assms]
  by (simp add: filter_map comp_def similarity_score_to_result)

theorem searchSimilar_threshold_filter_witness:
  "map similarity_score
     (projr (fst (searchSimilar demo_env kb ''q'' 5 (1/2)
                    (start (demo_db [''kb''] 7 demo_hits True True))))) = [9/10, 1/2]"
  using searchSimilar_threshold_filter [OF demo_query demo_hits_search, of "1/2"]
  by (auto simp: row_defs)

text \<open>
  C6. Let the query be vectorized and let the rows that \<open>ZillizManager.search\<close> returns be in
  descending order of score. Then for thresholds \<open>t1 \<le> t2\<close> both searches succeed, the
  results of each are in descending order of \<open>similarity_score\<close>, and the search with the
  higher threshold returns at most as many results as the one with the lower threshold.
\<close>

theorem searchSimilar_sorted_and_monotone:
  assumes "vectorizeText env q w = (Inr qv, w1)"
      and "search env (km_collectionName km) qv k (Some default_output_fields) w1 = (Inr rs, w2)"
      and "sorted_wrt (\<ge>) (map (\<lambda>r. or_number (sr_distance r) 0) rs)"
      and "t1 \<le> t2"
  shows "\<exists>out1 out2.
           searchSimilar env km q k t1 w = (Inr out1, w2) \<and>
           searchSimilar env km q k t2 w = (Inr out2, w2) \<and>
           sorted_wrt (\<ge>) (map similarity_score out1) \<and>
           sorted_wrt (\<ge>) (map similarity_score out2) \<and>
           length out2 \<le> length out1"
proof -
  let ?sc = "\<lambda>r. or_number (sr_distance r) (0::real)"
  let ?out = "\<lambda>t. map to_result (filter (\<lambda>r. t \<le> ?sc r) rs)"
  have scores: "map similarity_score (?out t) = filter (\<lambda>s. t \<le> s) (map ?sc rs)" for t
    by (simp add: filter_map comp_def similarity_score_to_result)
  have "sorted_wrt (\<ge>) (map similarity_score (?out t))" for t
    unfolding scores using assms(3) by (rule sorted_wrt_filter_ge)
  moreover have "length (?out t2) \<le> length (?out t1)"
    using assms(4) by (auto intro!: length_filter_mono)
  ultimately show ?thesis
    using searchSimilar_eq [OF assms(1,2), of t1] searchSimilar_eq [OF assms(1,2), of t2]
    by blast
qed

theorem searchSimilar_sorted_and_monotone_witness:
  "map similarity_score
     (projr (fst (searchSimilar demo_env kb ''q'' 5 (3/10)
                    (start (demo_db [''kb''] 7 demo_hits True True))))) = [9/10, 1/2, 3/10] \<and>
   map similarity_score
     (projr (fst (searchSimilar demo_env kb ''q'' 5 (1/2)
                    (start (demo_db [''kb''] 7 demo_hits True True))))) = [9/10, 1/2]"
proof -
  have s: "sorted_wrt (\<ge>) (map (\<lambda>r. or_number (sr_distance r) 0) (map format_row demo_hits))"
    by (simp add: row_defs)
  have t: "(3/10 :: real) \<le> 1/2" by simp
  from searchSimilar_sorted_and_monotone [OF demo_query demo_hits_search s t]
       searchSimilar_eq [OF demo_query demo_hits_search, of "3/10"]
       searchSimilar_eq [OF demo_query demo_hits_search, of "1/2"]
  show ?thesis by (simp add: row_defs)
qed

text \<open>The rows of a search reply reach the manager through \<open>format_row\<close>.\<close>

lemma search_rows:
  assumes "loadCollection env n w = (Inr True, wl)"
      and "request env (SearchReq n [qv] ''vector'' k fs) wl = (Inr (Data (DRows rows)), w2)"
  shows "search env n qv k (Some fs) w = (Inr (map format_row rows), w2)"
  using assms by (simp add: search_def monad_defs)

lemma demo_load:
  "loadCollection demo_env (km_collectionName kb)
     ((start (demo_db [''kb''] 7 hs True True))\<lparr>calls := [EmbedPost [''q'']]\<rparr>) =
   (Inr True,
    \<lparr>srv_state = (demo_db [''kb''] 7 hs True True)\<lparr>loaded := [''kb'']\<rparr>,
     calls = [EmbedPost [''q''], ZillizPost ListReq, ZillizPost (LoadReq ''kb'')],
     uuid_pos = 0, clock_pos = 0\<rparr>)"
  by (simp add: monad_defs zilliz_defs demo_defs)

lemma demo_search_request:
  "request demo_env (SearchReq (km_collectionName kb) [[1]] ''vector'' 5 default_output_fields)
     \<lparr>srv_state = (demo_db [''kb''] 7 [score_row, bare_row] True True)\<lparr>loaded := [''kb'']\<rparr>,
      calls = [EmbedPost [''q''], ZillizPost ListReq, ZillizPost (LoadReq ''kb'')],
      uuid_pos = 0, clock_pos = 0\<rparr> =
   (Inr (Data (DRows [score_row, bare_row])),
    snd (request demo_env
           (SearchReq (km_collectionName kb) [[1]] ''vector'' 5 default_output_fields)
     \<lparr>srv_state = (demo_db [''kb''] 7 [score_row, bare_row] True True)\<lparr>loaded := [''kb'']\<rparr>,
      calls = [EmbedPost [''q''], ZillizPost ListReq, ZillizPost (LoadReq ''kb'')],
      uuid_pos = 0, clock_pos = 0\<rparr>))"
  by (simp add: prod_eq_iff request_def demo_defs)

text \<open>
  C10, as the code has it. Let the query be vectorized, the collection be loaded and the
  database answer the search request with the rows \<open>rows\<close>. Every result object of
  \<open>searchSimilar\<close> is complete. For each record that is kept, a missing id gives the string
  \<open>auto_generated\<close>, a missing text, topic or title the empty string, a missing weight 1,
  missing tags the empty list and a missing \<open>created_at\<close> 0. A record without a distance
  gets as its score the \<open>score\<close> of the record when that is present and not zero, and 0
  otherwise; so a record with neither distance nor score gets the score 0.
\<close>

theorem searchSimilar_fills_missing_fields:
  assumes "vectorizeText env q w = (Inr qv, w1)"
      and "loadCollection env (km_collectionName km) w1 = (Inr True, wl)"
      and "request env
             (SearchReq (km_collectionName km) [qv] ''vector'' k default_output_fields) wl
           = (Inr (Data (DRows rows)), w2)"
  shows "\<exists>out. searchSimilar env km q k t w = (Inr out, w2) \<and>
           list_all2
             (\<lambda>r res.
                (row_id r = None \<longrightarrow> ks_id res = IdStr ''auto_generated'') \<and>
                (row_text r = None \<longrightarrow> ks_text res = []) \<and>
                (row_topic r = None \<longrightarrow> md_topic (ks_metadata res) = []) \<and>
                (row_title r = None \<longrightarrow> md_title (ks_metadata res) = []) \<and>
                (row_weight r = None \<longrightarrow> md_weight (ks_metadata res) = 1) \<and>
                (row_tags r = None \<longrightarrow> md_tags (ks_metadata res) = []) \<and>
                (row_created_at r = None \<longrightarrow> ks_created_at res = 0) \<and>
                (row_distance r = None \<longrightarrow> similarity_score res = or_number (row_score r) 0) \<and>
                (row_distance r = None \<and> row_score r = None \<longrightarrow> similarity_score res = 0))
             (filter (\<lambda>r. t \<le> or_number (row_distance r) (or_number (row_score r) 0)) rows)
             out"
proof -
  have f: "filter (\<lambda>r. t \<le> or_number (sr_distance r) 0) (map format_row rows) =
           map format_row
             (filter (\<lambda>r. t \<le> or_number (row_distance r) (or_number (row_score r) 0)) rows)"
    by (simp add: filter_map comp_def format_row_def or_number_def)
  show ?thesis
    using searchSimilar_eq [OF assms(1) search_rows [OF assms(2,3)], of t]
    unfolding f
    by (simp add: list_all2_map2 list_all2_same to_result_def format_row_def or_id_def
        or_string_def or_number_def or_array_def)
qed

theorem searchSimilar_fills_missing_fields_witness:
  "fst (searchSimilar demo_env kb ''q'' 5 0
          (start (demo_db [''kb''] 7 [score_row, bare_row] True True))) =
     Inr [\<lparr>ks_id = IdStr ''auto_generated'', ks_text = [],
           ks_metadata = \<lparr>md_topic = [], md_weight = 1, md_title = [], md_tags = []\<rparr>,
           ks_created_at = 0, similarity_score = 7/10\<rparr>,
          \<lparr>ks_id = IdStr ''auto_generated'', ks_text = [],
           ks_metadata = \<lparr>md_topic = [], md_weight = 1, md_title = [], md_tags = []\<rparr>,
           ks_created_at = 0, similarity_score = 0\<rparr>]"
  using searchSimilar_fills_missing_fields [OF demo_query demo_load demo_search_request, of 0]
        searchSimilar_eq [OF demo_query search_rows [OF demo_load demo_search_request], of 0]
  by (simp add: row_defs score_row_def)

text \<open>
  C10 as stated fails in its last part: the database delivers a record with no distance
  and the score 0.7, and the result object has the similarity score 0.7, not 0.
\<close>

theorem searchSimilar_missing_distance_takes_score:
  "row_distance score_row = None \<and>
   map similarity_score
     (projr (fst (searchSimilar demo_env kb ''q'' 5 0
                    (start (demo_db [''kb''] 7 [score_row, bare_row] True True))))) = [7/10, 0] \<and>
   (7/10 :: real) \<noteq> 0"
  using searchSimilar_eq [OF demo_query search_rows [OF demo_load demo_search_request], of 0]
  by (simp add: row_defs score_row_def)

end
